theory Spec2Isabelle
  imports Main "HOL-Library.Word"
begin

unbundle bit_operations_syntax

section \<open>The emulator's data (tools/emul/shell/shell.c, lines 27-48)\<close>

type_synonym u8 = "8 word"
type_synonym u16 = "16 word"
type_synonym u32 = "32 word"

text \<open>The constants of lines 27-40.\<close>

definition MAX_FSDEV_SIZE :: u32 where
  "MAX_FSDEV_SIZE = 0x20000"

definition RAMSTART :: u16 where
  "RAMSTART = 0x4000"

definition STDIO_PORT :: u16 where
  "STDIO_PORT = 0x00"

definition FS_DATA_PORT :: u16 where
  "FS_DATA_PORT = 0x01"

definition FS_ADDR_PORT :: u16 where
  "FS_ADDR_PORT = 0x02"

text \<open>
  \<open>EOF\<close> comes from the host's \<open>stdio.h\<close>; it is \<open>-1\<close> in the C libraries the
  emulator is built against (glibc, musl, the BSD libc).
\<close>

definition EOF :: int where
  "EOF = - 1"

text \<open>
  Every \<open>fprintf(stderr, ...)\<close> of the file is one constructor, carrying the arguments
  of its format string, in the order of the source.
\<close>

datatype diagnostic =
    Reading_mid_addr u32         \<comment> \<open>line 61: Reading FSDEV in the middle of an addr op\<close>
  | Out_of_bounds_read u32       \<comment> \<open>line 71: Out of bounds FSDEV read at\<close>
  | Out_of_bounds_io_read u16    \<comment> \<open>line 84: Out of bounds I/O read\<close>
  | Writing_mid_addr u32         \<comment> \<open>line 100: Writing to FSDEV in the middle of an addr op\<close>
  | Out_of_bounds_write u32      \<comment> \<open>line 109: Out of bounds FSDEV write at\<close>
  | Out_of_bounds_io_write u16 u8  \<comment> \<open>line 123: Out of bounds I/O write\<close>
  | Writing_to_ROM u16           \<comment> \<open>line 135: Writing to ROM\<close>

text \<open>
  The static variables of lines 43-48, and the three streams of the process. The array
  \<open>mem\<close> has one byte for each value of its 16-bit index. The array \<open>fsdev\<close> has
  \<open>MAX_FSDEV_SIZE\<close> bytes and a 32-bit index: the source reads and writes it only
  under the test \<open>fsdev_ptr < MAX_FSDEV_SIZE\<close>, which the model keeps, so the values
  of the function beyond the capacity are never looked at. \<open>stdin\<close> holds the bytes
  not yet read, \<open>stdout\<close> and \<open>stderr\<close> what was written, oldest first.
\<close>

record emul =
  mem :: "u16 \<Rightarrow> u8"
  fsdev :: "u32 \<Rightarrow> u8"
  fsdev_ptr :: u32
  fsdev_addr_lvl :: int
  running :: int
  stdin :: "u8 list"
  stdout :: "u8 list"
  stderr :: "diagnostic list"

section \<open>The C library calls\<close>

text \<open>\<open>getchar\<close>: the next byte of the input as a non-negative int, or \<open>EOF\<close>.\<close>

definition getchar :: "emul \<Rightarrow> int \<times> emul" where
  "getchar s =
     (case stdin s of
        [] \<Rightarrow> (EOF, s)
      | b # bs \<Rightarrow> (uint b, s\<lparr>stdin := bs\<rparr>))"

definition putchar :: "emul \<Rightarrow> u8 \<Rightarrow> emul" where
  "putchar s val = s\<lparr>stdout := stdout s @ [val]\<rparr>"

definition fprintf_stderr :: "emul \<Rightarrow> diagnostic \<Rightarrow> emul" where
  "fprintf_stderr s d = s\<lparr>stderr := stderr s @ [d]\<rparr>"

section \<open>The callbacks (lines 50-138)\<close>

text \<open>\<open>io_read\<close>, lines 50-87. The result is the byte returned and the state left.\<close>

definition io_read :: "emul \<Rightarrow> u16 \<Rightarrow> u8 \<times> emul" where
  "io_read s addr0 =
     (let addr = addr0 AND 0xff in
      if addr = STDIO_PORT then
        (let (c, s1) = getchar s;
             s2 = (if c = EOF then s1\<lparr>running := 0\<rparr> else s1)
         in (word_of_int c, s2))
      else if addr = FS_DATA_PORT then
        (if fsdev_addr_lvl s \<noteq> 0 then
           (0, fprintf_stderr s (Reading_mid_addr (fsdev_ptr s)))
         else if fsdev_ptr s < MAX_FSDEV_SIZE then
           (fsdev s (fsdev_ptr s), s)
         else
           (0, if fsdev_ptr s \<ge> MAX_FSDEV_SIZE
               then fprintf_stderr s (Out_of_bounds_read (fsdev_ptr s)) else s))
      else if addr = FS_ADDR_PORT then
        (if fsdev_addr_lvl s \<noteq> 0 then (3, s)
         else if fsdev_ptr s > MAX_FSDEV_SIZE then (2, s)
         else (0, s))
      else
        (0, fprintf_stderr s (Out_of_bounds_io_read addr)))"

text \<open>
  \<open>io_write\<close>, lines 89-125. In \<open>val << 16\<close> and \<open>val << 8\<close> the byte is promoted to
  a 32-bit int first, so no bit is lost.
\<close>

definition io_write :: "emul \<Rightarrow> u16 \<Rightarrow> u8 \<Rightarrow> emul" where
  "io_write s addr0 val =
     (let addr = addr0 AND 0xff in
      if addr = STDIO_PORT then
        (if val = 0x04 then s\<lparr>running := 0\<rparr> else putchar s val)
      else if addr = FS_DATA_PORT then
        (if fsdev_addr_lvl s \<noteq> 0 then
           fprintf_stderr s (Writing_mid_addr (fsdev_ptr s))
         else if fsdev_ptr s < MAX_FSDEV_SIZE then
           s\<lparr>fsdev := (fsdev s)(fsdev_ptr s := val)\<rparr>
         else
           fprintf_stderr s (Out_of_bounds_write (fsdev_ptr s)))
      else if addr = FS_ADDR_PORT then
        (if fsdev_addr_lvl s = 0 then
           s\<lparr>fsdev_ptr := push_bit 16 (ucast val), fsdev_addr_lvl := 1\<rparr>
         else if fsdev_addr_lvl s = 1 then
           s\<lparr>fsdev_ptr := fsdev_ptr s OR push_bit 8 (ucast val), fsdev_addr_lvl := 2\<rparr>
         else
           s\<lparr>fsdev_ptr := fsdev_ptr s OR ucast val, fsdev_addr_lvl := 0\<rparr>)
      else
        fprintf_stderr s (Out_of_bounds_io_write addr val))"

text \<open>\<open>mem_read\<close>, lines 127-130, and \<open>mem_write\<close>, lines 132-138.\<close>

definition mem_read :: "emul \<Rightarrow> u16 \<Rightarrow> u8" where
  "mem_read s addr = mem s addr"

definition mem_write :: "emul \<Rightarrow> u16 \<Rightarrow> u8 \<Rightarrow> emul" where
  "mem_write s addr val =
     (let s1 = (if addr < RAMSTART then fprintf_stderr s (Writing_to_ROM addr) else s)
      in s1\<lparr>mem := (mem s1)(addr := val)\<rparr>)"

section \<open>Sessions\<close>

text \<open>
  The state in which \<open>main\<close> enters its loop (line 183): \<open>fsdev_ptr\<close> and
  \<open>fsdev_addr_lvl\<close> still hold the initialisers of lines 45 and 47, \<open>running\<close> was
  set to 1 (line 176), and the two arrays hold what lines 142-174 loaded (the kernel
  image of \<open>kernel-bin.h\<close> and the output of \<open>cfspack\<close>, both outside this file, so
  they are parameters here, as are the input waiting on the console and the notices
  already printed).
\<close>

definition session_start :: "(u16 \<Rightarrow> u8) \<Rightarrow> (u32 \<Rightarrow> u8) \<Rightarrow> u8 list \<Rightarrow> u8 list \<Rightarrow> emul" where
  "session_start mem0 fsdev0 inp out0 =
     \<lparr>mem = mem0, fsdev = fsdev0, fsdev_ptr = 0, fsdev_addr_lvl = 0, running = 1,
      stdin = inp, stdout = out0, stderr = []\<rparr>"

text \<open>A session with blank memory, a blank device and no input.\<close>

definition blank_session :: emul where
  "blank_session = session_start (\<lambda>a. 0) (\<lambda>p. 0) [] []"

text \<open>
  The CPU stepper (libz80) touches the state only through the four callbacks that lines
  178-181 register. A run of the guest is therefore a sequence of such calls.
\<close>

datatype bus_op =
    Io_read u16
  | Io_write u16 u8
  | Mem_read u16
  | Mem_write u16 u8

fun bus_step :: "emul \<Rightarrow> bus_op \<Rightarrow> emul" where
  "bus_step s (Io_read addr) = snd (io_read s addr)"
| "bus_step s (Io_write addr val) = io_write s addr val"
| "bus_step s (Mem_read addr) = s"
| "bus_step s (Mem_write addr val) = mem_write s addr val"

definition bus_run :: "emul \<Rightarrow> bus_op list \<Rightarrow> emul" where
  "bus_run s ops = foldl bus_step s ops"

text \<open>The three address-port writes of one latch sequence, most significant byte first.\<close>

definition latch :: "emul \<Rightarrow> u8 \<Rightarrow> u8 \<Rightarrow> u8 \<Rightarrow> emul" where
  "latch s hi mid lo =
     io_write (io_write (io_write s FS_ADDR_PORT hi) FS_ADDR_PORT mid) FS_ADDR_PORT lo"

subsection \<open>Sample states\<close>

text \<open>
  The scenario of the specification: the device holds the byte 0xAB at offset 5.
\<close>

definition demo_session :: emul where
  "demo_session = blank_session\<lparr>fsdev := (fsdev blank_session)(5 := 0xAB)\<rparr>"

text \<open>A blank session after one, and after two, of the three address bytes.\<close>

definition mid_latch_1 :: emul where
  "mid_latch_1 = io_write blank_session FS_ADDR_PORT 0"

definition mid_latch_2 :: emul where
  "mid_latch_2 = io_write mid_latch_1 FS_ADDR_PORT 0"

text \<open>
  A blank session with the cursor at the capacity 0x020000, at the last byte 0x01FFFF and
  one past the capacity, 0x020001.
\<close>

definition at_capacity :: emul where
  "at_capacity = latch blank_session 0x02 0x00 0x00"

definition at_last_byte :: emul where
  "at_last_byte = latch blank_session 0x01 0xFF 0xFF"

definition past_capacity :: emul where
  "past_capacity = latch blank_session 0x02 0x00 0x01"

text \<open>A run that uses every callback and ends with the latch idle.\<close>

definition sample_ops :: "bus_op list" where
  "sample_ops =
     [Io_write FS_ADDR_PORT 0x02, Io_write FS_ADDR_PORT 0x00, Io_write FS_ADDR_PORT 0x00,
      Io_read FS_DATA_PORT, Io_write FS_DATA_PORT 0x58, Mem_write 0x1000 0x01,
      Io_read FS_ADDR_PORT, Io_write STDIO_PORT 0x58, Io_read STDIO_PORT]"

section \<open>Auxiliary facts\<close>

lemmas port_defs = STDIO_PORT_def FS_DATA_PORT_def FS_ADDR_PORT_def

lemmas session_defs = demo_session_def blank_session_def session_start_def

subsection \<open>Three bytes make a 24-bit value\<close>

lemma unat_u8_less: "unat (b::u8) < 256"
  using unsigned_less [of b, where ?'a = nat] by simp

lemma unat_ucast_u8: "unat (ucast (b::u8) :: u32) = unat b"
proof -
  have "unat b < 2 ^ 32" using unat_u8_less [of b] by simp
  then show ?thesis by (simp add: unsigned_ucast_eq take_bit_nat_eq_self)
qed

lemma bit_u8: "bit (b::u8) n \<Longrightarrow> n < 8"
  using bit_imp_le_length [of b n] by simp

lemma mid_lo_disjoint: "push_bit 8 (ucast (mid::u8) :: u32) AND ucast (lo::u8) = 0"
  by (auto simp add: bit_eq_iff bit_simps dest: bit_u8)

lemma hi_rest_disjoint:
  "push_bit 16 (ucast (hi::u8) :: u32) AND (push_bit 8 (ucast (mid::u8)) OR ucast (lo::u8)) = 0"
  by (auto simp add: bit_eq_iff bit_simps dest!: bit_u8)

lemma cursor_or_eq_add:
  fixes hi mid lo :: u8
  shows "push_bit 16 (ucast hi) OR push_bit 8 (ucast mid) OR (ucast lo :: u32)
         = push_bit 16 (ucast hi) + (push_bit 8 (ucast mid) + ucast lo)"
proof -
  have "push_bit 8 (ucast mid :: u32) + ucast lo = push_bit 8 (ucast mid) OR ucast lo"
    by (rule disjunctive_add_eq_or) (rule mid_lo_disjoint)
  moreover have "push_bit 16 (ucast hi :: u32) + (push_bit 8 (ucast mid) OR ucast lo)
       = push_bit 16 (ucast hi) OR (push_bit 8 (ucast mid) OR ucast lo)"
    by (rule disjunctive_add_eq_or) (rule hi_rest_disjoint)
  ultimately show ?thesis by (simp only: or.assoc)
qed

lemma cursor_unat:
  fixes hi mid lo :: u8
  shows "unat (push_bit 16 (ucast hi) OR push_bit 8 (ucast mid) OR (ucast lo :: u32))
         = unat hi * 65536 + unat mid * 256 + unat lo"
proof -
  have h: "unat hi < 256" and m: "unat mid < 256" and l: "unat lo < 256"
    by (rule unat_u8_less)+
  have "unat (push_bit 16 (ucast hi :: u32) + (push_bit 8 (ucast mid) + ucast lo))
        = (unat hi * 65536 + (unat mid * 256 + unat lo)) mod 2 ^ 32"
    by (simp add: unat_word_ariths push_bit_eq_mult unat_ucast_u8 mod_simps)
  also have "\<dots> = unat hi * 65536 + unat mid * 256 + unat lo"
    using h m l by simp
  finally show ?thesis by (simp only: cursor_or_eq_add)
qed

lemma below24_iff: "(w::u32) < 0x1000000 \<longleftrightarrow> take_bit 24 (unat w) = unat w"
  by (simp add: word_less_nat_alt take_bit_nat_eq_self_iff)

lemma below24_or:
  fixes a b :: u32
  assumes "a < 0x1000000" and "b < 0x1000000"
  shows "a OR b < 0x1000000"
  using assms by (simp add: below24_iff unsigned_or_eq)

lemma below24_byte:
  fixes v :: u8
  shows "push_bit 16 (ucast v :: u32) < 0x1000000"
    and "push_bit 8 (ucast v :: u32) < 0x1000000"
    and "(ucast v :: u32) < 0x1000000"
  using cursor_unat [of v 0 0] cursor_unat [of 0 v 0] cursor_unat [of 0 0 v] unat_u8_less [of v]
  by (simp_all add: word_less_nat_alt)

subsection \<open>The callbacks, port by port\<close>

lemma io_read_data:
  "io_read s FS_DATA_PORT =
     (if fsdev_addr_lvl s \<noteq> 0 then (0, fprintf_stderr s (Reading_mid_addr (fsdev_ptr s)))
      else if fsdev_ptr s < MAX_FSDEV_SIZE then (fsdev s (fsdev_ptr s), s)
      else (0, fprintf_stderr s (Out_of_bounds_read (fsdev_ptr s))))"
  by (auto simp add: io_read_def port_defs)

lemma io_read_status:
  "io_read s FS_ADDR_PORT =
     (if fsdev_addr_lvl s \<noteq> 0 then 3 else if MAX_FSDEV_SIZE < fsdev_ptr s then 2 else 0, s)"
  by (simp add: io_read_def port_defs)

lemma io_write_data:
  "io_write s FS_DATA_PORT v =
     (if fsdev_addr_lvl s \<noteq> 0 then fprintf_stderr s (Writing_mid_addr (fsdev_ptr s))
      else if fsdev_ptr s < MAX_FSDEV_SIZE then s\<lparr>fsdev := (fsdev s)(fsdev_ptr s := v)\<rparr>
      else fprintf_stderr s (Out_of_bounds_write (fsdev_ptr s)))"
  by (simp add: io_write_def port_defs)

lemma io_write_addr:
  "io_write s FS_ADDR_PORT v =
     (if fsdev_addr_lvl s = 0 then
        s\<lparr>fsdev_ptr := push_bit 16 (ucast v), fsdev_addr_lvl := 1\<rparr>
      else if fsdev_addr_lvl s = 1 then
        s\<lparr>fsdev_ptr := fsdev_ptr s OR push_bit 8 (ucast v), fsdev_addr_lvl := 2\<rparr>
      else s\<lparr>fsdev_ptr := fsdev_ptr s OR ucast v, fsdev_addr_lvl := 0\<rparr>)"
  by (simp add: io_write_def port_defs)

lemma latch_idle:
  assumes "fsdev_addr_lvl s = 0"
  shows "latch s hi mid lo =
           s\<lparr>fsdev_ptr := push_bit 16 (ucast hi) OR push_bit 8 (ucast mid) OR ucast lo,
             fsdev_addr_lvl := 0\<rparr>"
  using assms by (simp add: latch_def io_write_addr or.assoc)

lemma latch_status:
  assumes "fsdev_addr_lvl s = 0"
  shows "fst (io_read (latch s hi mid lo) FS_ADDR_PORT) =
           (if 131072 < unat hi * 65536 + unat mid * 256 + unat lo then 2 else 0)"
  using cursor_unat [of hi mid lo]
  by (simp add: latch_idle [OF assms] io_read_status MAX_FSDEV_SIZE_def word_less_nat_alt)

subsection \<open>What the callbacks leave of the cursor and the latch\<close>

lemma io_read_latch [simp]:
  "fsdev_ptr (snd (io_read s a)) = fsdev_ptr s"
  "fsdev_addr_lvl (snd (io_read s a)) = fsdev_addr_lvl s"
  by (simp_all add: io_read_def getchar_def fprintf_stderr_def Let_def split: list.split)

lemma mem_write_latch [simp]:
  "fsdev_ptr (mem_write s a v) = fsdev_ptr s"
  "fsdev_addr_lvl (mem_write s a v) = fsdev_addr_lvl s"
  by (simp_all add: mem_write_def fprintf_stderr_def Let_def)

lemma io_write_below24:
  assumes "fsdev_ptr s < 0x1000000"
  shows "fsdev_ptr (io_write s a v) < 0x1000000"
  using assms
  by (simp add: io_write_def putchar_def fprintf_stderr_def Let_def below24_or below24_byte)

lemma io_write_lvl:
  assumes "fsdev_addr_lvl s \<in> {0, 1, 2}"
  shows "fsdev_addr_lvl (io_write s a v) \<in> {0, 1, 2}"
  using assms by (auto simp add: io_write_def putchar_def fprintf_stderr_def Let_def)

lemma bus_step_inv:
  assumes "fsdev_ptr s < 0x1000000 \<and> fsdev_addr_lvl s \<in> {0, 1, 2}"
  shows "fsdev_ptr (bus_step s x) < 0x1000000 \<and> fsdev_addr_lvl (bus_step s x) \<in> {0, 1, 2}"
proof (cases x)
  case (Io_write a v)
  then show ?thesis using assms io_write_below24 [of s a v] io_write_lvl [of s a v] by simp
qed (use assms in simp_all)

lemma bus_run_inv:
  assumes "fsdev_ptr s < 0x1000000 \<and> fsdev_addr_lvl s \<in> {0, 1, 2}"
  shows "fsdev_ptr (bus_run s ops) < 0x1000000 \<and> fsdev_addr_lvl (bus_run s ops) \<in> {0, 1, 2}"
  using assms unfolding bus_run_def
proof (induction ops arbitrary: s)
  case Nil
  then show ?case by simp
next
  case (Cons x xs)
  from bus_step_inv [OF Cons.prems, of x]
  have "fsdev_ptr (foldl bus_step (bus_step s x) xs) < 0x1000000
        \<and> fsdev_addr_lvl (foldl bus_step (bus_step s x) xs) \<in> {0, 1, 2}"
    by (rule Cons.IH)
  then show ?case by simp
qed

subsection \<open>The sample states\<close>

lemma demo_session_fields:
  "fsdev_addr_lvl demo_session = 0" "fsdev demo_session 5 = 0xAB"
  by (simp_all add: session_defs)

lemma mid_latch_1_fields:
  "fsdev_addr_lvl mid_latch_1 = 1" "fsdev_ptr mid_latch_1 = 0" "stderr mid_latch_1 = []"
  by (simp_all add: mid_latch_1_def io_write_addr session_defs)

lemma mid_latch_2_fields:
  "fsdev_addr_lvl mid_latch_2 = 2" "fsdev_ptr mid_latch_2 = 0" "stderr mid_latch_2 = []"
  by (simp_all add: mid_latch_2_def io_write_addr mid_latch_1_fields)

lemma at_capacity_fields:
  "fsdev_addr_lvl at_capacity = 0" "fsdev_ptr at_capacity = 0x20000" "stderr at_capacity = []"
  by (simp_all add: at_capacity_def latch_idle session_defs)

lemma at_last_byte_fields:
  "fsdev_addr_lvl at_last_byte = 0" "fsdev_ptr at_last_byte = 0x1FFFF"
  "stderr at_last_byte = []" "fsdev at_last_byte 0x1FFFF = 0"
  by (simp_all add: at_last_byte_def latch_idle session_defs)

lemma past_capacity_fields:
  "fsdev_addr_lvl past_capacity = 0" "fsdev_ptr past_capacity = 0x20001"
  "stderr past_capacity = []"
  by (simp_all add: past_capacity_def latch_idle session_defs)

section \<open>The address latch\<close>

text \<open>
  C1. Starting with the latch idle, for all bytes \<open>hi\<close>, \<open>mid\<close>, \<open>lo\<close> written in
  this order to the address port (port 2): the cursor is then
  \<open>(hi << 16) | (mid << 8) | lo\<close>, that is the number \<open>hi * 65536 + mid * 256 + lo\<close>,
  the latch is idle again and nothing else has changed. A read or a write of the data
  port that follows works at this cursor: below the capacity the read returns the byte of
  the device at the cursor and the write stores its byte there; from the capacity on,
  both are refused as out of bounds.
\<close>

theorem address_latch_sets_cursor:
  assumes "fsdev_addr_lvl s = 0"
  shows "fsdev_ptr (latch s hi mid lo) =
           push_bit 16 (ucast hi) OR push_bit 8 (ucast mid) OR ucast lo
     \<and> unat (fsdev_ptr (latch s hi mid lo)) = unat hi * 65536 + unat mid * 256 + unat lo
     \<and> fsdev_addr_lvl (latch s hi mid lo) = 0
     \<and> latch s hi mid lo =
           s\<lparr>fsdev_ptr := fsdev_ptr (latch s hi mid lo), fsdev_addr_lvl := 0\<rparr>
     \<and> io_read (latch s hi mid lo) FS_DATA_PORT =
          (if fsdev_ptr (latch s hi mid lo) < MAX_FSDEV_SIZE
           then (fsdev s (fsdev_ptr (latch s hi mid lo)), latch s hi mid lo)
           else (0, fprintf_stderr (latch s hi mid lo)
                      (Out_of_bounds_read (fsdev_ptr (latch s hi mid lo)))))
     \<and> io_write (latch s hi mid lo) FS_DATA_PORT v =
          (if fsdev_ptr (latch s hi mid lo) < MAX_FSDEV_SIZE
           then (latch s hi mid lo)\<lparr>fsdev := (fsdev s)(fsdev_ptr (latch s hi mid lo) := v)\<rparr>
           else fprintf_stderr (latch s hi mid lo)
                  (Out_of_bounds_write (fsdev_ptr (latch s hi mid lo))))"
  by (simp add: latch_idle [OF assms] cursor_unat io_read_data io_write_data)

theorem address_latch_sets_cursor_witness:
  "fsdev_addr_lvl demo_session = 0
   \<and> fsdev_ptr (latch demo_session 0 0 5) = 5
   \<and> unat (fsdev_ptr (latch demo_session 0 0 5)) = 5
   \<and> fsdev_addr_lvl (latch demo_session 0 0 5) = 0
   \<and> fst (io_read (latch demo_session 0 0 5) FS_DATA_PORT) = 0xAB
   \<and> fsdev (io_write (latch demo_session 0 0 5) FS_DATA_PORT 0x58) 5 = 0x58"
  using address_latch_sets_cursor [of demo_session 0 0 5 "0x58"]
  by (simp add: session_defs MAX_FSDEV_SIZE_def)

text \<open>
  C9. Starting with the latch idle, the address sequence \<open>(hi, mid, lo)\<close> issued twice
  with the same bytes gives the same cursor after the second sequence as after the
  first, and a read of the data port after the second sequence returns what a read
  after the first returns; both hold whether or not the first read is made between the
  two sequences.
\<close>

theorem latch_twice_same:
  assumes "fsdev_addr_lvl s = 0"
  shows "fsdev_ptr (latch (latch s hi mid lo) hi mid lo) = fsdev_ptr (latch s hi mid lo)
     \<and> fst (io_read (latch (latch s hi mid lo) hi mid lo) FS_DATA_PORT)
         = fst (io_read (latch s hi mid lo) FS_DATA_PORT)
     \<and> fsdev_ptr (latch (snd (io_read (latch s hi mid lo) FS_DATA_PORT)) hi mid lo)
         = fsdev_ptr (latch s hi mid lo)
     \<and> fst (io_read (latch (snd (io_read (latch s hi mid lo) FS_DATA_PORT)) hi mid lo)
              FS_DATA_PORT)
         = fst (io_read (latch s hi mid lo) FS_DATA_PORT)"
  by (simp add: latch_idle assms io_read_data fprintf_stderr_def)

theorem latch_twice_same_witness:
  "fsdev_addr_lvl demo_session = 0
   \<and> fsdev_ptr (latch demo_session 0 0 5) = 5
   \<and> fsdev_ptr (latch (snd (io_read (latch demo_session 0 0 5) FS_DATA_PORT)) 0 0 5) = 5
   \<and> fst (io_read (latch demo_session 0 0 5) FS_DATA_PORT) = 0xAB
   \<and> fst (io_read (latch (snd (io_read (latch demo_session 0 0 5) FS_DATA_PORT)) 0 0 5)
            FS_DATA_PORT) = 0xAB"
proof -
  have i: "fsdev_addr_lvl demo_session = 0"
    by (rule demo_session_fields)
  have r: "fst (io_read (latch demo_session 0 0 5) FS_DATA_PORT) = 0xAB"
    by (simp add: latch_idle [OF i] io_read_data MAX_FSDEV_SIZE_def demo_session_fields)
  have p: "fsdev_ptr (latch demo_session 0 0 5) = 5"
    by (simp add: latch_idle [OF i])
  show ?thesis
    using latch_twice_same [OF i, of 0 0 5] by (simp add: i r p)
qed

text \<open>
  C5, as the code has it. The claim that address-port writes never leave the cursor
  above the capacity fails: the bytes 0x02, 0x00, 0x01 written to the address port of a
  fresh session complete a sequence with the cursor at 0x020001, and the status read
  returns 2.
\<close>

theorem cursor_above_capacity_reachable:
  "fsdev_addr_lvl (bus_run blank_session
      [Io_write FS_ADDR_PORT 0x02, Io_write FS_ADDR_PORT 0x00, Io_write FS_ADDR_PORT 0x01]) = 0
   \<and> fsdev_ptr (bus_run blank_session
      [Io_write FS_ADDR_PORT 0x02, Io_write FS_ADDR_PORT 0x00, Io_write FS_ADDR_PORT 0x01])
       = 0x20001
   \<and> MAX_FSDEV_SIZE < fsdev_ptr (bus_run blank_session
      [Io_write FS_ADDR_PORT 0x02, Io_write FS_ADDR_PORT 0x00, Io_write FS_ADDR_PORT 0x01])
   \<and> fst (io_read (bus_run blank_session
      [Io_write FS_ADDR_PORT 0x02, Io_write FS_ADDR_PORT 0x00, Io_write FS_ADDR_PORT 0x01])
        FS_ADDR_PORT) = 2"
proof -
  have r: "bus_run blank_session
      [Io_write FS_ADDR_PORT 0x02, Io_write FS_ADDR_PORT 0x00, Io_write FS_ADDR_PORT 0x01]
      = past_capacity"
    by (simp add: bus_run_def past_capacity_def latch_def)
  show ?thesis
    by (simp add: r past_capacity_fields io_read_status MAX_FSDEV_SIZE_def)
qed

text \<open>
  C5, amended. In every state that a sequence of callbacks reaches from the start of a
  session, the cursor is below \<open>2 ^ 24\<close> (it is made of three bytes) and the latch level
  is 0, 1 or 2. When the latch is idle in such a state and a sequence \<open>(hi, mid, lo)\<close> is
  completed, the status read returns 2 exactly when \<open>hi * 65536 + mid * 256 + lo\<close> is
  greater than the capacity 131072, and 0 otherwise: the branch is reachable.
\<close>

theorem cursor_reachable_range:
  "fsdev_ptr (bus_run (session_start mem0 fsdev0 inp out0) ops) < 0x1000000
   \<and> fsdev_addr_lvl (bus_run (session_start mem0 fsdev0 inp out0) ops) \<in> {0, 1, 2}
   \<and> (fsdev_addr_lvl (bus_run (session_start mem0 fsdev0 inp out0) ops) = 0 \<longrightarrow>
        fst (io_read (latch (bus_run (session_start mem0 fsdev0 inp out0) ops) hi mid lo)
               FS_ADDR_PORT)
          = (if 131072 < unat hi * 65536 + unat mid * 256 + unat lo then 2 else 0))"
proof -
  have "fsdev_ptr (session_start mem0 fsdev0 inp out0) < 0x1000000
        \<and> fsdev_addr_lvl (session_start mem0 fsdev0 inp out0) \<in> {0, 1, 2}"
    by (simp add: session_start_def)
  from bus_run_inv [OF this, of ops] show ?thesis
    by (simp add: latch_status)
qed

theorem cursor_reachable_range_witness:
  "fsdev_ptr (bus_run blank_session sample_ops) < 0x1000000
   \<and> fsdev_addr_lvl (bus_run blank_session sample_ops) = 0
   \<and> fst (io_read (latch (bus_run blank_session sample_ops) 0xFF 0xFF 0xFF) FS_ADDR_PORT) = 2
   \<and> fst (io_read (latch (bus_run blank_session sample_ops) 0x02 0x00 0x00) FS_ADDR_PORT) = 0"
proof -
  have i: "fsdev_addr_lvl (bus_run blank_session sample_ops) = 0"
    by (simp add: bus_run_def sample_ops_def io_write_def port_defs putchar_def
          fprintf_stderr_def session_defs)
  show ?thesis
    using cursor_reachable_range [of "\<lambda>a. 0" "\<lambda>p. 0" "[]" "[]" sample_ops "0xFF" "0xFF" "0xFF"]
      cursor_reachable_range [of "\<lambda>a. 0" "\<lambda>p. 0" "[]" "[]" sample_ops "0x02" "0x00" "0x00"]
    unfolding blank_session_def [symmetric]
    by (simp add: i)
qed

section \<open>The data port\<close>

text \<open>
  C2. In every state whose latch is not idle, a read of the data port (port 1) returns 0
  and a write to it is dropped; each emits its diagnostic and changes nothing else, so
  the device, the cursor and the latch level stay as they were. The latch leaves this
  condition only through the address port: from level 1 the next address byte gives
  level 2 and the one after it level 0; from any other level that is not 0 the next
  address byte gives level 0.
\<close>

theorem data_port_rejected_mid_latch:
  assumes "fsdev_addr_lvl s \<noteq> 0"
  shows "io_read s FS_DATA_PORT =
           (0, s\<lparr>stderr := stderr s @ [Reading_mid_addr (fsdev_ptr s)]\<rparr>)
     \<and> io_write s FS_DATA_PORT v =
           s\<lparr>stderr := stderr s @ [Writing_mid_addr (fsdev_ptr s)]\<rparr>
     \<and> (fsdev_addr_lvl s = 1 \<longrightarrow>
            fsdev_addr_lvl (io_write s FS_ADDR_PORT b) = 2
          \<and> fsdev_addr_lvl (io_write (io_write s FS_ADDR_PORT b) FS_ADDR_PORT c) = 0)
     \<and> (fsdev_addr_lvl s \<noteq> 1 \<longrightarrow> fsdev_addr_lvl (io_write s FS_ADDR_PORT c) = 0)"
  using assms by (simp add: io_read_data io_write_data io_write_addr fprintf_stderr_def)

theorem data_port_rejected_mid_latch_witness:
  "fsdev_addr_lvl mid_latch_1 = 1 \<and> fsdev_addr_lvl mid_latch_2 = 2
   \<and> fst (io_read mid_latch_1 FS_DATA_PORT) = 0
   \<and> stderr (snd (io_read mid_latch_1 FS_DATA_PORT)) = [Reading_mid_addr 0]
   \<and> fsdev (io_write mid_latch_1 FS_DATA_PORT 0x58) = fsdev mid_latch_1
   \<and> stderr (io_write mid_latch_1 FS_DATA_PORT 0x58) = [Writing_mid_addr 0]
   \<and> fsdev_addr_lvl (io_write mid_latch_1 FS_ADDR_PORT 0) = 2
   \<and> fsdev_addr_lvl (io_write (io_write mid_latch_1 FS_ADDR_PORT 0) FS_ADDR_PORT 5) = 0
   \<and> fst (io_read mid_latch_2 FS_DATA_PORT) = 0
   \<and> stderr (snd (io_read mid_latch_2 FS_DATA_PORT)) = [Reading_mid_addr 0]
   \<and> stderr (io_write mid_latch_2 FS_DATA_PORT 0x58) = [Writing_mid_addr 0]
   \<and> fsdev_addr_lvl (io_write mid_latch_2 FS_ADDR_PORT 5) = 0"
  using data_port_rejected_mid_latch [of mid_latch_1 "0x58" 0 5]
    data_port_rejected_mid_latch [of mid_latch_2 "0x58" 0 5]
  by (simp add: mid_latch_1_fields mid_latch_2_fields)

text \<open>
  C3. With the latch idle: when the cursor is at the capacity 131072 or beyond, a read of
  the data port returns 0 and a write is dropped, each with its out-of-bounds diagnostic
  and no other change; when the cursor is below the capacity, and so at 131071, the read
  returns the byte of the device at the cursor and changes nothing, and the write stores
  its byte at the cursor and changes nothing else.
\<close>

theorem data_port_bounds:
  assumes "fsdev_addr_lvl s = 0"
  shows "(MAX_FSDEV_SIZE \<le> fsdev_ptr s \<longrightarrow>
            io_read s FS_DATA_PORT =
              (0, s\<lparr>stderr := stderr s @ [Out_of_bounds_read (fsdev_ptr s)]\<rparr>)
          \<and> io_write s FS_DATA_PORT v =
              s\<lparr>stderr := stderr s @ [Out_of_bounds_write (fsdev_ptr s)]\<rparr>)
     \<and> (fsdev_ptr s < MAX_FSDEV_SIZE \<longrightarrow>
            io_read s FS_DATA_PORT = (fsdev s (fsdev_ptr s), s)
          \<and> io_write s FS_DATA_PORT v = s\<lparr>fsdev := (fsdev s)(fsdev_ptr s := v)\<rparr>)
     \<and> (fsdev_ptr s = 0x1FFFF \<longrightarrow>
            io_read s FS_DATA_PORT = (fsdev s 0x1FFFF, s)
          \<and> io_write s FS_DATA_PORT v = s\<lparr>fsdev := (fsdev s)(0x1FFFF := v)\<rparr>)
     \<and> MAX_FSDEV_SIZE = 131072"
  using assms
  by (auto simp add: io_read_data io_write_data fprintf_stderr_def MAX_FSDEV_SIZE_def)

theorem data_port_bounds_witness:
  "fsdev_addr_lvl at_capacity = 0 \<and> fsdev_ptr at_capacity = 0x20000
   \<and> fst (io_read at_capacity FS_DATA_PORT) = 0
   \<and> stderr (snd (io_read at_capacity FS_DATA_PORT)) = [Out_of_bounds_read 0x20000]
   \<and> fsdev (io_write at_capacity FS_DATA_PORT 0x58) = fsdev at_capacity
   \<and> stderr (io_write at_capacity FS_DATA_PORT 0x58) = [Out_of_bounds_write 0x20000]
   \<and> fsdev_addr_lvl at_last_byte = 0 \<and> fsdev_ptr at_last_byte = 0x1FFFF
   \<and> io_read at_last_byte FS_DATA_PORT = (0, at_last_byte)
   \<and> fsdev (io_write at_last_byte FS_DATA_PORT 0x58) 0x1FFFF = 0x58
   \<and> stderr (io_write at_last_byte FS_DATA_PORT 0x58) = []"
proof -
  have m: "MAX_FSDEV_SIZE = 0x20000" by (simp add: MAX_FSDEV_SIZE_def)
  have "fst (io_read at_capacity FS_DATA_PORT) = 0
     \<and> stderr (snd (io_read at_capacity FS_DATA_PORT)) = [Out_of_bounds_read 0x20000]
     \<and> fsdev (io_write at_capacity FS_DATA_PORT 0x58) = fsdev at_capacity
     \<and> stderr (io_write at_capacity FS_DATA_PORT 0x58) = [Out_of_bounds_write 0x20000]"
    using data_port_bounds [of at_capacity "0x58"] by (simp add: at_capacity_fields m)
  moreover have "io_read at_last_byte FS_DATA_PORT = (0, at_last_byte)
     \<and> fsdev (io_write at_last_byte FS_DATA_PORT 0x58) 0x1FFFF = 0x58
     \<and> stderr (io_write at_last_byte FS_DATA_PORT 0x58) = []"
    using data_port_bounds [of at_last_byte "0x58"] by (simp add: at_last_byte_fields m)
  ultimately show ?thesis by (simp add: at_capacity_fields at_last_byte_fields)
qed

text \<open>
  C8. A read of the data port, whether it succeeds, is out of bounds or comes in the
  middle of an address sequence, leaves the cursor (no auto-increment), the latch level,
  the device, the memory and \<open>running\<close> as they were, and the console streams too. The
  state after the read is the state before it, but for the one diagnostic of a refused
  read.
\<close>

theorem data_read_frame:
  "snd (io_read s FS_DATA_PORT) =
     (if fsdev_addr_lvl s \<noteq> 0
        then s\<lparr>stderr := stderr s @ [Reading_mid_addr (fsdev_ptr s)]\<rparr>
      else if fsdev_ptr s < MAX_FSDEV_SIZE then s
      else s\<lparr>stderr := stderr s @ [Out_of_bounds_read (fsdev_ptr s)]\<rparr>)
   \<and> fsdev_ptr (snd (io_read s FS_DATA_PORT)) = fsdev_ptr s
   \<and> fsdev_addr_lvl (snd (io_read s FS_DATA_PORT)) = fsdev_addr_lvl s
   \<and> fsdev (snd (io_read s FS_DATA_PORT)) = fsdev s
   \<and> mem (snd (io_read s FS_DATA_PORT)) = mem s
   \<and> running (snd (io_read s FS_DATA_PORT)) = running s
   \<and> stdin (snd (io_read s FS_DATA_PORT)) = stdin s
   \<and> stdout (snd (io_read s FS_DATA_PORT)) = stdout s"
  by (simp add: io_read_data fprintf_stderr_def)

section \<open>The status read\<close>

text \<open>
  C4. A read of the address port (port 2) changes nothing and returns 3 whenever the
  latch is not idle, whatever the cursor; with the latch idle it returns 2 when the
  cursor is strictly greater than the capacity 131072 and 0 otherwise. With the latch
  idle and the cursor equal to the capacity it returns 0, although a read and a write of
  the data port in that state are refused as out of bounds.
\<close>

theorem status_port_read:
  "io_read s FS_ADDR_PORT =
     (if fsdev_addr_lvl s \<noteq> 0 then 3
      else if MAX_FSDEV_SIZE < fsdev_ptr s then 2 else 0, s)
   \<and> MAX_FSDEV_SIZE = 131072
   \<and> (fsdev_addr_lvl s = 0 \<and> fsdev_ptr s = MAX_FSDEV_SIZE \<longrightarrow>
         fst (io_read s FS_ADDR_PORT) = 0
       \<and> io_read s FS_DATA_PORT =
           (0, s\<lparr>stderr := stderr s @ [Out_of_bounds_read (fsdev_ptr s)]\<rparr>)
       \<and> io_write s FS_DATA_PORT v =
           s\<lparr>stderr := stderr s @ [Out_of_bounds_write (fsdev_ptr s)]\<rparr>)"
  by (simp add: io_read_status io_read_data io_write_data fprintf_stderr_def MAX_FSDEV_SIZE_def)

theorem status_port_read_witness:
  "fsdev_addr_lvl at_capacity = 0 \<and> fsdev_ptr at_capacity = MAX_FSDEV_SIZE
   \<and> fst (io_read at_capacity FS_ADDR_PORT) = 0
   \<and> fst (io_read at_capacity FS_DATA_PORT) = 0
   \<and> stderr (snd (io_read at_capacity FS_DATA_PORT)) = [Out_of_bounds_read 0x20000]
   \<and> stderr (io_write at_capacity FS_DATA_PORT 0x58) = [Out_of_bounds_write 0x20000]
   \<and> fst (io_read past_capacity FS_ADDR_PORT) = 2
   \<and> fst (io_read mid_latch_1 FS_ADDR_PORT) = 3
   \<and> fst (io_read mid_latch_2 FS_ADDR_PORT) = 3"
proof -
  have m: "MAX_FSDEV_SIZE = 0x20000" by (simp add: MAX_FSDEV_SIZE_def)
  have "fst (io_read at_capacity FS_ADDR_PORT) = 0
     \<and> fst (io_read at_capacity FS_DATA_PORT) = 0
     \<and> stderr (snd (io_read at_capacity FS_DATA_PORT)) = [Out_of_bounds_read 0x20000]
     \<and> stderr (io_write at_capacity FS_DATA_PORT 0x58) = [Out_of_bounds_write 0x20000]"
    using status_port_read [of at_capacity "0x58"] by (simp add: at_capacity_fields m)
  moreover have "fst (io_read past_capacity FS_ADDR_PORT) = 2"
    using status_port_read [of past_capacity] by (simp add: past_capacity_fields m)
  moreover have "fst (io_read mid_latch_1 FS_ADDR_PORT) = 3"
    using status_port_read [of mid_latch_1] by (simp add: mid_latch_1_fields)
  moreover have "fst (io_read mid_latch_2 FS_ADDR_PORT) = 3"
    using status_port_read [of mid_latch_2] by (simp add: mid_latch_2_fields)
  ultimately show ?thesis by (simp add: at_capacity_fields m)
qed

section \<open>Memory\<close>

text \<open>
  C6. For every 16-bit address and byte, a memory write followed by a memory read at the
  same address returns the byte written, also below \<open>RAMSTART\<close> (0x4000): the write is
  never blocked. The diagnostic "Writing to ROM" is emitted exactly when the address is
  below 0x4000, and nothing but the memory cell and the diagnostic stream changes.
\<close>

theorem mem_write_then_read:
  "mem_read (mem_write s a v) a = v
   \<and> mem (mem_write s a v) = (mem s)(a := v)
   \<and> stderr (mem_write s a v) =
       (if a < 0x4000 then stderr s @ [Writing_to_ROM a] else stderr s)
   \<and> mem_write s a v =
       s\<lparr>mem := (mem s)(a := v), stderr := stderr (mem_write s a v)\<rparr>"
  by (simp add: mem_read_def mem_write_def fprintf_stderr_def RAMSTART_def Let_def)

section \<open>The console port\<close>

text \<open>
  C7. For every byte written to the console port (port 0): the byte 0x04 clears
  \<open>running\<close> and is not put on the output stream; every other byte is appended to the
  output stream as it is and \<open>running\<close> keeps its value. The write has no failing
  outcome: it always yields a state, nothing else of the state changes and no diagnostic
  is emitted.
\<close>

theorem console_write:
  "io_write s STDIO_PORT b =
     (if b = 0x04 then s\<lparr>running := 0\<rparr> else s\<lparr>stdout := stdout s @ [b]\<rparr>)
   \<and> running (io_write s STDIO_PORT b) = (if b = 0x04 then 0 else running s)
   \<and> stdout (io_write s STDIO_PORT b) = (if b = 0x04 then stdout s else stdout s @ [b])
   \<and> stderr (io_write s STDIO_PORT b) = stderr s
   \<and> STDIO_PORT = 0"
  by (simp add: io_write_def putchar_def STDIO_PORT_def Let_def)

text \<open>
  C10. When the console input is at its end, a read of the console port (port 0) clears
  \<open>running\<close>, returns the byte 0xFF, which is \<open>EOF\<close> cut to 8 bits, and changes nothing
  else.
\<close>

theorem console_eof:
  assumes "stdin s = []"
  shows "io_read s STDIO_PORT = (0xFF, s\<lparr>running := 0\<rparr>)"
  using assms by (simp add: io_read_def getchar_def EOF_def port_defs)

theorem console_eof_witness:
  "stdin blank_session = [] \<and> running blank_session = 1
   \<and> fst (io_read blank_session STDIO_PORT) = 0xFF
   \<and> running (snd (io_read blank_session STDIO_PORT)) = 0"
  using console_eof [of blank_session]
  by (simp add: session_defs)

end
